theory Spec2Isabelle
  imports Main
begin

section \<open>Python values and exceptions\<close>

text \<open>
  The hyperparameters are an argparse namespace. Every attribute the model reads is
  defined by the argument parser, except \<open>vocab_size\<close>, which \<open>get_config\<close>
  guards with \<open>hasattr\<close> and a truth test. An attribute is therefore absent,
  \<open>None\<close>, or an integer; only the absent attribute, \<open>None\<close> and \<open>0\<close> are falsy.
\<close>

datatype attr = Missing | PyNone | PyInt int

fun has_attr :: "attr \<Rightarrow> bool" where
  "has_attr Missing = False"
| "has_attr PyNone = True"
| "has_attr (PyInt n) = True"

fun truthy :: "attr \<Rightarrow> bool" where
  "truthy Missing = False"
| "truthy PyNone = False"
| "truthy (PyInt n) = (n \<noteq> 0)"

text \<open>
  Exceptions raised by the code or by the libraries it calls. All of them are
  instances of Python's \<open>Exception\<close> class, so \<open>except Exception\<close> catches each of
  them; signals outside that class (\<open>KeyboardInterrupt\<close>, \<open>SystemExit\<close>) are not
  raised by any computation modelled here.
\<close>

datatype exc =
    RuntimeError string
  | KeyError string
  | TypeError string
  | OSError string
  | ValueError string
  | LibraryError string

section \<open>Hyperparameters and model configuration (finetune.py)\<close>

record hparams =
  vocab_size :: attr
  tiny :: bool
  max_position_embeddings :: int
  mode :: string
  output_size :: int
  label_column :: string
  max_seq_length :: int
  train_file :: string
  valid_file :: string
  test_file :: string
  num_workers :: int

text \<open>The keyword arguments \<open>BertConfigExtras\<close> is constructed with.\<close>

record config =
  vocab_size_or_config_json_file :: attr
  hidden_size :: int
  num_hidden_layers :: int
  num_attention_heads :: int
  intermediate_size :: int
  cfg_max_position_embeddings :: int
  cfg_mode :: string
  cfg_output_size :: int
  cfg_label_column :: string

text \<open>
  \<open>get_config\<close> first assigns \<open>self.hparams.vocab_size = 42\<close> when the attribute
  is absent or falsy, then builds one of two presets. The assignment is a mutation of
  the shared namespace, so the function returns the namespace as it leaves it together
  with the configuration.
\<close>

definition set_default_vocab :: "hparams \<Rightarrow> hparams" where
  "set_default_vocab h =
     (if \<not> has_attr (vocab_size h) \<or> \<not> truthy (vocab_size h)
      then h\<lparr>vocab_size := PyInt 42\<rparr> else h)"

definition get_config :: "hparams \<Rightarrow> hparams \<times> config" where
  "get_config h0 =
     (let h = set_default_vocab h0 in
      if tiny h then
        (h, \<lparr>vocab_size_or_config_json_file = vocab_size h,
             hidden_size = 16,
             num_hidden_layers = 2,
             num_attention_heads = 2,
             intermediate_size = 32,
             cfg_max_position_embeddings = max_position_embeddings h,
             cfg_mode = mode h,
             cfg_output_size = output_size h,
             cfg_label_column = label_column h\<rparr>)
      else
        (h, \<lparr>vocab_size_or_config_json_file = vocab_size h,
             hidden_size = 768,
             num_hidden_layers = 12,
             num_attention_heads = 12,
             intermediate_size = 3072,
             cfg_max_position_embeddings = max_position_embeddings h,
             cfg_mode = mode h,
             cfg_output_size = output_size h,
             cfg_label_column = label_column h\<rparr>))"

subsection \<open>Tasks\<close>

text \<open>\<open>FinetuneTask(name=..., config=...)\<close>: the task as the constructor call.\<close>

record task =
  task_name :: string
  task_config :: config

definition get_tasks :: "config \<Rightarrow> task list" where
  "get_tasks c = [\<lparr>task_name = ''finetune'', task_config = c\<rparr>]"

subsection \<open>Datasets\<close>

text \<open>
  \<open>load_datasets\<close> constructs one featurizer object and hands it to three dataset
  constructors. Whether the three datasets share one object is a question of
  identity, so objects live in a store and are named by their address:
  \<open>bert_smiles_index_featurizer\<close> allocates a new featurizer at the next free address.
\<close>

record featurizer_obj =
  max_length :: int

type_synonym store = "featurizer_obj list"

definition bert_smiles_index_featurizer :: "store \<Rightarrow> int \<Rightarrow> store \<times> nat" where
  "bert_smiles_index_featurizer st n = (st @ [\<lparr>max_length = n\<rparr>], length st)"

text \<open>
  A dataset is the record of its constructor call. \<open>inference_mode_arg\<close> is the
  keyword argument as the call site gives it: \<open>None\<close> when the call does not pass it.
\<close>

record dataset =
  input_path :: string
  featurizer :: nat
  single_seq_len :: int
  total_seq_len :: int
  ds_label_column :: string
  is_same :: bool
  inference_mode_arg :: "bool option"

text \<open>
  Modelled from the spec: the constructor \<open>BertFinetuneSmilesDataset\<close>
  (molbert.datasets.finetune) is not among the sources, so the default of its
  \<open>inference_mode\<close> parameter is taken from the spec, which says that a dataset built
  without the argument is "built without inference mode".
\<close>

definition inference_mode :: "dataset \<Rightarrow> bool" where
  "inference_mode d = (case inference_mode_arg d of None \<Rightarrow> False | Some b \<Rightarrow> b)"

definition load_datasets :: "store \<Rightarrow> hparams \<Rightarrow> store \<times> (string \<times> dataset) list" where
  "load_datasets st h =
     (case bert_smiles_index_featurizer st (max_seq_length h) of
        (st', fz) \<Rightarrow>
          (let train_dataset =
                 \<lparr>input_path = train_file h, featurizer = fz,
                  single_seq_len = max_seq_length h, total_seq_len = max_seq_length h,
                  ds_label_column = label_column h, is_same = False,
                  inference_mode_arg = None\<rparr>;
               validation_dataset =
                 \<lparr>input_path = valid_file h, featurizer = fz,
                  single_seq_len = max_seq_length h, total_seq_len = max_seq_length h,
                  ds_label_column = label_column h, is_same = False,
                  inference_mode_arg = None\<rparr>;
               test_dataset =
                 \<lparr>input_path = test_file h, featurizer = fz,
                  single_seq_len = max_seq_length h, total_seq_len = max_seq_length h,
                  ds_label_column = label_column h, is_same = False,
                  inference_mode_arg = Some True\<rparr>
           in (st', [(''train'', train_dataset), (''valid'', validation_dataset),
                     (''test'', test_dataset)])))"

subsection \<open>The test data loader\<close>

text \<open>
  \<open>test_dataloader\<close> reads \<open>self.datasets['test']\<close> and constructs a
  \<open>MolbertDataLoader\<close> with a fixed batch size. The loader is the record of that
  constructor call; a missing dictionary key raises \<open>KeyError\<close>, and the
  \<open>DataLoader\<close> constructor refuses a negative \<open>num_workers\<close> with \<open>ValueError\<close>.
\<close>

definition dict_get :: "(string \<times> 'a) list \<Rightarrow> string \<Rightarrow> exc + 'a" where
  "dict_get d k = (case map_of d k of None \<Rightarrow> Inl (KeyError k) | Some v \<Rightarrow> Inr v)"

record 'ds dataloader =
  dl_dataset :: 'ds
  batch_size :: nat
  dl_num_workers :: int

definition test_dataloader :: "(string \<times> 'ds) list \<Rightarrow> hparams \<Rightarrow> exc + 'ds dataloader" where
  "test_dataloader datasets h =
     (case dict_get datasets ''test'' of
        Inl e \<Rightarrow> Inl e
      | Inr ds \<Rightarrow>
          if num_workers h < 0
          then Inl (ValueError ''num_workers option should be non-negative'')
          else Inr \<lparr>dl_dataset = ds, batch_size = 1024, dl_num_workers = num_workers h\<rparr>)"

text \<open>
  Modelled from the spec: \<open>MolbertDataLoader\<close> (molbert.datasets.dataloading) is not
  among the sources. The spec calls it a \<open>DataLoader\<close> that produces batches of the
  configured size; it is modelled as the sequential loader it specialises, for a
  dataset whose rows are all valid: the row indices \<open>0 ..< len\<close> in order, cut into
  consecutive batches of \<open>batch_size\<close> rows, the last batch holding the remainder.
\<close>

function batches :: "nat \<Rightarrow> 'a list \<Rightarrow> 'a list list" where
  "batches bs xs =
     (if bs = 0 \<or> xs = [] then [] else take bs xs # batches bs (drop bs xs))"
  by pat_completeness auto
termination
  by (relation "measure (\<lambda>(bs, xs). length xs)") auto

declare batches.simps [simp del]

definition loader_batches :: "('ds \<Rightarrow> nat) \<Rightarrow> 'ds dataloader \<Rightarrow> nat list list" where
  "loader_batches len L = batches (batch_size L) [0 ..< len (dl_dataset L)]"

subsection \<open>Collaborators of the test-time evaluation\<close>

text \<open>
  The evaluation calls into torch and torchmetrics and into the base model
  (\<open>forward\<close>, \<open>evaluate_losses\<close>), none of which belongs to the two modules modelled.
  They are parameters of the model: \<open>'t\<close> is the type of tensors, \<open>'v\<close> the type of
  the Python numbers \<open>.item()\<close> returns, \<open>'i\<close> the type of batch inputs. Every call can
  raise. A dictionary is an association list in insertion order.
\<close>

datatype metric_kind =
    AUROC
  | AveragePrecision
  | Accuracy
  | F1Score
  | MeanAbsoluteError
  | MeanSquaredError bool  \<comment> \<open>the \<open>squared\<close> flag\<close>
  | R2Score

record ('t, 'v, 'i) env =
  forward :: "'i \<Rightarrow> exc + (string \<times> 't) list"
  evaluate_losses :: "(string \<times> 't) list \<Rightarrow> (string \<times> 't) list \<Rightarrow> exc + (string \<times> 't) list"
  cat_nonempty :: "'t list \<Rightarrow> exc + 't"
  sum_stack :: "'t list \<Rightarrow> exc + 't"
  softmax_dim1 :: "'t \<Rightarrow> exc + 't"
  argmax_dim1_squeeze :: "'t \<Rightarrow> exc + 't"
  select_column1 :: "'t \<Rightarrow> exc + 't"
  long_squeeze :: "'t \<Rightarrow> exc + 't"
  item :: "'t \<Rightarrow> exc + 'v"
  torchmetric :: "metric_kind \<Rightarrow> 't \<Rightarrow> 't \<Rightarrow> 't \<Rightarrow> exc + 't"
  can_write :: "string \<Rightarrow> bool"

text \<open>
  \<open>torch.cat\<close> refuses an empty list of tensors with a \<open>RuntimeError\<close>; what it does
  with a non-empty list is the library's business (\<open>cat_nonempty\<close>).
  \<open>torchmetric lib k d a b\<close> stands for \<open>K(...).to(d.device)(a, b)\<close>.
\<close>

definition torch_cat :: "('t, 'v, 'i) env \<Rightarrow> 't list \<Rightarrow> exc + 't" where
  "torch_cat lib ts =
     (if ts = [] then Inl (RuntimeError ''torch.cat(): expected a non-empty list of Tensors'')
      else cat_nonempty lib ts)"

text \<open>\<open>d[k] = v\<close> on a dictionary: replace in place, or append a new key.\<close>

fun dict_set :: "'k \<Rightarrow> 'a \<Rightarrow> ('k \<times> 'a) list \<Rightarrow> ('k \<times> 'a) list" where
  "dict_set k v [] = [(k, v)]"
| "dict_set k v ((k', v') # d) =
     (if k' = k then (k, v) # d else (k', v') # dict_set k v d)"

text \<open>A list comprehension whose body can raise: the first exception ends it.\<close>

fun comprehension :: "('a \<Rightarrow> exc + 'b) \<Rightarrow> 'a list \<Rightarrow> exc + 'b list" where
  "comprehension f [] = Inr []"
| "comprehension f (x # xs) =
     (case f x of
        Inl e \<Rightarrow> Inl e
      | Inr y \<Rightarrow> (case comprehension f xs of Inl e \<Rightarrow> Inl e | Inr ys \<Rightarrow> Inr (y # ys)))"

subsection \<open>Metrics\<close>

text \<open>A recorded metric value: the number \<open>.item()\<close> returned, or \<open>np.nan\<close>.\<close>

datatype 'v mval = Item 'v | NaN

type_synonym 't metric_thunk = "unit \<Rightarrow> exc + 't"

definition classification_metrics ::
  "('t, 'v, 'i) env \<Rightarrow> 't \<Rightarrow> 't \<Rightarrow> 't \<Rightarrow> (string \<times> 't metric_thunk) list" where
  "classification_metrics lib preds probs_of_positive_class batch_labels =
     [(''AUROC'', \<lambda>_. torchmetric lib AUROC preds probs_of_positive_class batch_labels),
      (''AveragePrecision'',
         \<lambda>_. torchmetric lib AveragePrecision preds probs_of_positive_class batch_labels),
      (''Accuracy'', \<lambda>_. torchmetric lib Accuracy preds preds batch_labels),
      (''F1'', \<lambda>_. torchmetric lib F1Score preds preds batch_labels)]"

definition regression_metrics ::
  "('t, 'v, 'i) env \<Rightarrow> 't \<Rightarrow> 't \<Rightarrow> (string \<times> 't metric_thunk) list" where
  "regression_metrics lib preds batch_labels =
     [(''MAE'', \<lambda>_. torchmetric lib MeanAbsoluteError preds preds batch_labels),
      (''RMSE'', \<lambda>_. torchmetric lib (MeanSquaredError False) preds preds batch_labels),
      (''MSE'', \<lambda>_. torchmetric lib (MeanSquaredError True) preds preds batch_labels),
      (''R2'', \<lambda>_. torchmetric lib R2Score preds preds batch_labels)]"

text \<open>The body of the \<open>try\<close>: \<open>callable_metric().item()\<close>.\<close>

definition call_item :: "('t, 'v, 'i) env \<Rightarrow> 't metric_thunk \<Rightarrow> exc + 'v" where
  "call_item lib callable_metric =
     (case callable_metric () of Inl e \<Rightarrow> Inl e | Inr t \<Rightarrow> item lib t)"

text \<open>
  The loop over \<open>metrics.items()\<close>: \<open>except Exception\<close> catches whatever the body
  raised and stores \<open>np.nan\<close> under the metric's name.
\<close>

fun metrics_loop ::
  "('t, 'v, 'i) env \<Rightarrow> (string \<times> 't metric_thunk) list \<Rightarrow> (string \<times> 'v mval) list
     \<Rightarrow> (string \<times> 'v mval) list" where
  "metrics_loop lib [] out = out"
| "metrics_loop lib ((name, callable_metric) # rest) out =
     (case call_item lib callable_metric of
        Inr v \<Rightarrow> metrics_loop lib rest (dict_set name (Item v) out)
      | Inl e \<Rightarrow> metrics_loop lib rest (dict_set name NaN out))"

definition evaluate_metrics ::
  "('t, 'v, 'i) env \<Rightarrow> hparams \<Rightarrow> 't \<Rightarrow> 't \<Rightarrow> exc + (string \<times> 'v mval) list" where
  "evaluate_metrics lib h batch_labels batch_predictions =
     (if mode h = ''classification'' then
        (case softmax_dim1 lib batch_predictions of
           Inl e \<Rightarrow> Inl e
         | Inr probs \<Rightarrow>
        (case argmax_dim1_squeeze lib probs of
           Inl e \<Rightarrow> Inl e
         | Inr preds \<Rightarrow>
        (case select_column1 lib probs of
           Inl e \<Rightarrow> Inl e
         | Inr probs_of_positive_class \<Rightarrow>
        (case long_squeeze lib batch_labels of
           Inl e \<Rightarrow> Inl e
         | Inr labels' \<Rightarrow>
             Inr (metrics_loop lib
                    (classification_metrics lib preds probs_of_positive_class labels') [])))))
      else Inr (metrics_loop lib (regression_metrics lib batch_predictions batch_labels) []))"

text \<open>
  What the spec asks of each metric, in its own words: the value is the metric's
  number, or "not a number" when its computation raised.
\<close>

definition recorded :: "('t, 'v, 'i) env \<Rightarrow> 't metric_thunk \<Rightarrow> 'v mval" where
  "recorded lib callable_metric =
     (case call_item lib callable_metric of Inl e \<Rightarrow> NaN | Inr v \<Rightarrow> Item v)"

subsection \<open>The model object at test time\<close>

text \<open>\<open>dict(predictions=y_hat, labels=batch_labels)\<close>, each keyed by task name.\<close>

record 't step_output =
  predictions :: "(string \<times> 't) list"
  labels :: "(string \<times> 't) list"

datatype ('t, 'v) log_call =
    LogMetrics "(string \<times> 'v mval) list"
  | LogTensors "(string \<times> 't) list"

text \<open>
  The text \<open>json.dump(obj, f, indent=n)\<close> writes for a flat mapping from names to
  floats: one member per line, indented by \<open>n\<close> spaces, in the mapping's order. A float
  is written as its \<open>repr\<close>, which reads reread as the same number; a NaN is written
  as the token \<open>NaN\<close>.
\<close>

datatype 'v number_text = Repr 'v | NaN_token

datatype 'v json_text = JsonText nat "(string \<times> 'v number_text) list"

fun float_text :: "'v mval \<Rightarrow> 'v number_text" where
  "float_text (Item v) = Repr v"
| "float_text NaN = NaN_token"

definition json_dump :: "(string \<times> 'v mval) list \<Rightarrow> nat \<Rightarrow> 'v json_text" where
  "json_dump obj indent = JsonText indent (map (\<lambda>(k, v). (k, float_text v)) obj)"





text \<open>
  The part of \<open>self\<close> and of the world the test hooks touch: the hyperparameters, the
  accumulator, the trainer's checkpoint path (possibly \<open>None\<close>), the calls of
  \<open>self.log_dict\<close> so far, and the files written.
\<close>

record ('t, 'v) model =
  hp :: hparams
  test_step_outputs :: "'t step_output list"
  ckpt_path :: "string option"
  logged :: "('t, 'v) log_call list"
  files :: "(string \<times> 'v json_text) list"

record ('t, 'v) summary =
  s_loss :: 't
  s_metrics :: "(string \<times> 'v mval) list"
  s_test_loss :: 't
  s_log :: "(string \<times> 't) list"

text \<open>\<open>os.path.dirname\<close> and \<open>os.path.join\<close> (two arguments) on POSIX paths.\<close>

definition os_path_dirname :: "string \<Rightarrow> string" where
  "os_path_dirname p =
     (let head = rev (dropWhile (\<lambda>c. c \<noteq> CHR ''/'') (rev p)) in
      if head \<noteq> [] \<and> \<not> list_all (\<lambda>c. c = CHR ''/'') head
      then rev (dropWhile (\<lambda>c. c = CHR ''/'') (rev head))
      else head)"

definition os_path_join :: "string \<Rightarrow> string \<Rightarrow> string" where
  "os_path_join a b =
     (if b \<noteq> [] \<and> hd b = CHR ''/'' then b
      else if a = [] \<or> last a = CHR ''/'' then a @ b
      else a @ ''/'' @ b)"

text \<open>
  \<open>test_step\<close>: the batch is \<open>((inputs, labels), mask)\<close>; the forward pass may raise,
  otherwise the record of predictions and labels is appended to the accumulator and
  returned. The state is returned in both cases.
\<close>

definition test_step ::
  "('t, 'v, 'i) env \<Rightarrow> ('t, 'v) model \<Rightarrow> ('i \<times> (string \<times> 't) list) \<times> 'k
     \<Rightarrow> ('t, 'v) model \<times> (exc + 't step_output)" where
  "test_step lib m batch =
     (case batch of ((batch_inputs, batch_labels), _) \<Rightarrow>
        (case forward lib batch_inputs of
           Inl e \<Rightarrow> (m, Inl e)
         | Inr y_hat \<Rightarrow>
             (let outputs = \<lparr>predictions = y_hat, labels = batch_labels\<rparr>
              in (m\<lparr>test_step_outputs := test_step_outputs m @ [outputs]\<rparr>, Inr outputs))))"

text \<open>\<open>{'test_loss': loss, **losses}\<close>.\<close>

definition tensorboard_logs_of :: "'t \<Rightarrow> (string \<times> 't) list \<Rightarrow> (string \<times> 't) list" where
  "tensorboard_logs_of loss losses =
     foldl (\<lambda>d (k, v). dict_set k v d) [(''test_loss'', loss)] losses"

text \<open>
  \<open>on_test_epoch_end\<close>, statement by statement. An exception leaves the function at
  once, with the state as the statements before it left it; the accumulator is
  cleared by the last statement before \<open>return\<close>.
\<close>

definition on_test_epoch_end ::
  "('t, 'v, 'i) env \<Rightarrow> ('t, 'v) model \<Rightarrow> ('t, 'v) model \<times> (exc + ('t, 'v) summary)" where
  "on_test_epoch_end lib m =
     (let outputs = test_step_outputs m in
      case comprehension (\<lambda>out. dict_get (predictions out) ''finetune'') outputs of
        Inl e \<Rightarrow> (m, Inl e)
      | Inr ps \<Rightarrow>
     (case torch_cat lib ps of
        Inl e \<Rightarrow> (m, Inl e)
      | Inr all_predictions \<Rightarrow>
     (case comprehension (\<lambda>out. dict_get (labels out) ''finetune'') outputs of
        Inl e \<Rightarrow> (m, Inl e)
      | Inr ls \<Rightarrow>
     (case torch_cat lib ls of
        Inl e \<Rightarrow> (m, Inl e)
      | Inr all_labels \<Rightarrow>
     (case evaluate_losses lib [(''finetune'', all_labels)] [(''finetune'', all_predictions)] of
        Inl e \<Rightarrow> (m, Inl e)
      | Inr losses \<Rightarrow>
     (case sum_stack lib (map snd losses) of
        Inl e \<Rightarrow> (m, Inl e)
      | Inr loss \<Rightarrow>
     (case evaluate_metrics lib (hp m) all_labels all_predictions of
        Inl e \<Rightarrow> (m, Inl e)
      | Inr metrics \<Rightarrow>
          (let m1 = m\<lparr>logged := logged m @ [LogMetrics metrics]\<rparr>;
               tensorboard_logs = tensorboard_logs_of loss losses
           in case ckpt_path m1 of
                None \<Rightarrow> (m1, Inl (TypeError ''expected str, bytes or os.PathLike object, not NoneType''))
              | Some cp \<Rightarrow>
                  (let metrics_path = os_path_join (os_path_dirname cp) ''metrics.json'' in
                   if \<not> can_write lib metrics_path then (m1, Inl (OSError metrics_path))
                   else
                     (let m2 = m1\<lparr>files := dict_set metrics_path (json_dump metrics 4) (files m1)\<rparr>;
                          m3 = m2\<lparr>logged := logged m2 @ [LogTensors tensorboard_logs]\<rparr>;
                          m4 = m3\<lparr>test_step_outputs := []\<rparr>
                      in (m4, Inr \<lparr>s_loss = loss, s_metrics = metrics,
                                   s_test_loss = loss, s_log = tensorboard_logs\<rparr>)))))))))))"

section \<open>The application bootstrap (base.py)\<close>

text \<open>
  The parsed command line. Arguments that \<open>run\<close> only hands on to the trainer have
  the opaque type \<open>'x\<close>; \<open>gpus\<close> is compared with \<open>0\<close> and \<open>wandb\<close> is tested for truth.
\<close>

record 'x args =
  seed :: 'x
  default_root_dir :: 'x
  min_epochs :: 'x
  max_epochs :: 'x
  val_check_interval :: 'x
  limit_val_batches :: 'x
  gpus :: int
  strategy :: 'x
  precision :: 'x
  num_nodes :: 'x
  accumulate_grad_batches :: 'x
  fast_dev_run :: 'x
  wandb :: bool
  resume_from_checkpoint :: 'x

text \<open>The \<open>devices\<close> argument of the trainer: the string "auto" or a number.\<close>

datatype devices = Auto | DeviceCount int

datatype callback =
    LearningRateMonitor
  | ModelCheckpoint string bool bool  \<comment> \<open>monitor, verbose, save_last\<close>

datatype experiment_logger = WandbLogger

record 'x trainer =
  tr_default_root_dir :: 'x
  tr_min_epochs :: 'x
  tr_max_epochs :: 'x
  tr_val_check_interval :: 'x
  tr_limit_val_batches :: 'x
  tr_devices :: devices
  tr_strategy :: 'x
  tr_precision :: 'x
  tr_num_nodes :: 'x
  tr_accumulate_grad_batches :: 'x
  tr_fast_dev_run :: 'x
  tr_callbacks :: "callback list"
  tr_logger :: "experiment_logger option"

text \<open>The \<open>Trainer(...)\<close> call of \<open>run\<close>, with the two callbacks built before it.\<close>

definition run_trainer :: "'x args \<Rightarrow> 'x trainer" where
  "run_trainer a =
     (let checkpoint_callback = ModelCheckpoint ''valid_loss'' True True;
          lr_logger = LearningRateMonitor
      in \<lparr>tr_default_root_dir = default_root_dir a,
          tr_min_epochs = min_epochs a,
          tr_max_epochs = max_epochs a,
          tr_val_check_interval = val_check_interval a,
          tr_limit_val_batches = limit_val_batches a,
          tr_devices = (if gpus a = 0 then Auto else DeviceCount (gpus a)),
          tr_strategy = strategy a,
          tr_precision = precision a,
          tr_num_nodes = num_nodes a,
          tr_accumulate_grad_batches = accumulate_grad_batches a,
          tr_fast_dev_run = fast_dev_run a,
          tr_callbacks = [lr_logger, checkpoint_callback],
          tr_logger = (if wandb a then Some WandbLogger else None)\<rparr>)"

section \<open>Example inputs\<close>

text \<open>A namespace for a tiny regression model, with no \<open>vocab_size\<close> attribute.\<close>

definition example_hparams :: hparams where
  "example_hparams =
     \<lparr>vocab_size = Missing, tiny = True, max_position_embeddings = 512,
      mode = ''regression'', output_size = 1, label_column = ''logP'',
      max_seq_length = 128, train_file = ''train.csv'', valid_file = ''valid.csv'',
      test_file = ''test.csv'', num_workers = 4\<rparr>"

definition example_args :: "string args" where
  "example_args =
     \<lparr>seed = ''42'', default_root_dir = ''out'', min_epochs = ''1'', max_epochs = ''10'',
      val_check_interval = ''1.0'', limit_val_batches = ''1.0'', gpus = 0,
      strategy = ''auto'', precision = ''32'', num_nodes = ''1'',
      accumulate_grad_batches = ''1'', fast_dev_run = ''False'', wandb = False,
      resume_from_checkpoint = ''None''\<rparr>"

text \<open>
  A test set of 1025 rows, and an instance of the collaborators over integer lists:
  tensors are lists of integers, concatenation is \<open>concat\<close>, \<open>.item()\<close> accepts
  one-element tensors only, and the AUROC and R2 metrics raise.
\<close>

definition big_testset :: "(string \<times> string list) list" where
  "big_testset = [(''test'', replicate 1025 ''CCO'')]"

definition example_env :: "(int list, int, int list) env" where
  "example_env =
     \<lparr>forward = (\<lambda>x. Inr [(''finetune'', x)]),
      evaluate_losses = (\<lambda>ls ps. Inr [(''finetune'', [0])]),
      cat_nonempty = (\<lambda>ts. Inr (concat ts)),
      sum_stack = (\<lambda>ts. Inr [sum_list (concat ts)]),
      softmax_dim1 = Inr,
      argmax_dim1_squeeze = Inr,
      select_column1 = Inr,
      long_squeeze = Inr,
      item = (\<lambda>t. case t of [x] \<Rightarrow> Inr x | _ \<Rightarrow> Inl (RuntimeError ''item'')),
      torchmetric = (\<lambda>k d a b.
         case k of
           R2Score \<Rightarrow> Inl (LibraryError ''R2'')
         | AUROC \<Rightarrow> Inl (LibraryError ''AUROC'')
         | MeanSquaredError sq \<Rightarrow> Inr a
         | _ \<Rightarrow> Inr [int (length a)]),
      can_write = (\<lambda>p. True)\<rparr>"

definition example_model :: "(int list, int) model" where
  "example_model =
     \<lparr>hp = example_hparams,
      test_step_outputs =
        [\<lparr>predictions = [(''finetune'', [1])], labels = [(''finetune'', [2])]\<rparr>],
      ckpt_path = Some ''runs/v1/last.ckpt'',
      logged = [],
      files = []\<rparr>"

definition example_metrics :: "(string \<times> int mval) list" where
  "example_metrics = [(''MAE'', Item 1), (''RMSE'', Item 1), (''MSE'', Item 1), (''R2'', NaN)]"

definition example_model_done :: "(int list, int) model" where
  "example_model_done =
     \<lparr>hp = example_hparams,
      test_step_outputs = [],
      ckpt_path = Some ''runs/v1/last.ckpt'',
      logged = [LogMetrics example_metrics,
                LogTensors [(''test_loss'', [0]), (''finetune'', [0])]],
      files = [(''runs/v1/metrics.json'', json_dump example_metrics 4)]\<rparr>"

definition example_summary :: "(int list, int) summary" where
  "example_summary =
     \<lparr>s_loss = [0], s_metrics = example_metrics, s_test_loss = [0],
      s_log = [(''test_loss'', [0]), (''finetune'', [0])]\<rparr>"





section \<open>Properties of the configuration\<close>

text \<open>
  C5: with \<open>tiny\<close> set, \<open>get_config\<close> yields hidden size 16, 2 layers, 2 heads and
  intermediate size 32 whatever the other arguments are; without it, 768, 12, 12 and
  3072. An absent or falsy vocabulary size becomes 42 in the configuration, and mode,
  output size and label column are those of the arguments.
\<close>

theorem get_config_presets:
  "(tiny h \<longrightarrow>
      hidden_size (snd (get_config h)) = 16 \<and>
      num_hidden_layers (snd (get_config h)) = 2 \<and>
      num_attention_heads (snd (get_config h)) = 2 \<and>
      intermediate_size (snd (get_config h)) = 32) \<and>
   (\<not> tiny h \<longrightarrow>
      hidden_size (snd (get_config h)) = 768 \<and>
      num_hidden_layers (snd (get_config h)) = 12 \<and>
      num_attention_heads (snd (get_config h)) = 12 \<and>
      intermediate_size (snd (get_config h)) = 3072) \<and>
   (\<not> has_attr (vocab_size h) \<or> \<not> truthy (vocab_size h) \<longrightarrow>
      vocab_size_or_config_json_file (snd (get_config h)) = PyInt 42) \<and>
   (has_attr (vocab_size h) \<and> truthy (vocab_size h) \<longrightarrow>
      vocab_size_or_config_json_file (snd (get_config h)) = vocab_size h) \<and>
   cfg_mode (snd (get_config h)) = mode h \<and>
   cfg_output_size (snd (get_config h)) = output_size h \<and>
   cfg_label_column (snd (get_config h)) = label_column h \<and>
   cfg_max_position_embeddings (snd (get_config h)) = max_position_embeddings h"
  by (simp add: get_config_def set_default_vocab_def Let_def)

theorem get_config_presets_witness:
  "tiny example_hparams \<and> \<not> tiny (example_hparams\<lparr>tiny := False, vocab_size := PyInt 0\<rparr>) \<and>
   \<not> has_attr (vocab_size example_hparams) \<and>
   hidden_size (snd (get_config example_hparams)) = 16 \<and>
   num_hidden_layers (snd (get_config example_hparams)) = 2 \<and>
   num_attention_heads (snd (get_config example_hparams)) = 2 \<and>
   intermediate_size (snd (get_config example_hparams)) = 32 \<and>
   vocab_size_or_config_json_file (snd (get_config example_hparams)) = PyInt 42 \<and>
   cfg_mode (snd (get_config example_hparams)) = ''regression'' \<and>
   hidden_size (snd (get_config (example_hparams\<lparr>tiny := False, vocab_size := PyInt 0\<rparr>))) = 768 \<and>
   vocab_size_or_config_json_file
     (snd (get_config (example_hparams\<lparr>tiny := False, vocab_size := PyInt 0\<rparr>))) = PyInt 42 \<and>
   vocab_size_or_config_json_file
     (snd (get_config (example_hparams\<lparr>vocab_size := PyInt 70\<rparr>))) = PyInt 70"
  using get_config_presets [of example_hparams]
    get_config_presets [of "example_hparams\<lparr>tiny := False, vocab_size := PyInt 0\<rparr>"]
    get_config_presets [of "example_hparams\<lparr>vocab_size := PyInt 70\<rparr>"]
  by (simp add: example_hparams_def)

text \<open>
  C6: for every configuration \<open>get_tasks\<close> returns a sequence of exactly one task,
  named "finetune" (and built from that configuration).
\<close>

theorem get_tasks_single_finetune:
  "length (get_tasks c) = 1 \<and>
   task_name (hd (get_tasks c)) = ''finetune'' \<and>
   get_tasks c = [\<lparr>task_name = ''finetune'', task_config = c\<rparr>]"
  by (simp add: get_tasks_def)

text \<open>
  C10: \<open>get_config\<close> is not free of side effects. When \<open>vocab_size\<close> is absent or
  falsy, the namespace it leaves behind has \<open>vocab_size = 42\<close>, so the namespace
  differs from the one it was called with and every later read sees 42; all other
  attributes are untouched.
\<close>

theorem get_config_mutates_hparams:
  "\<not> has_attr (vocab_size h) \<or> \<not> truthy (vocab_size h) \<Longrightarrow>
     vocab_size (fst (get_config h)) = PyInt 42 \<and>
     fst (get_config h) \<noteq> h \<and>
     fst (get_config h) = h\<lparr>vocab_size := PyInt 42\<rparr> \<and>
     fst (get_config (fst (get_config h))) = fst (get_config h)"
proof -
  assume unset: "\<not> has_attr (vocab_size h) \<or> \<not> truthy (vocab_size h)"
  then have upd: "fst (get_config h) = h\<lparr>vocab_size := PyInt 42\<rparr>"
    by (simp add: get_config_def set_default_vocab_def Let_def)
  from unset have "vocab_size h \<noteq> PyInt 42"
    by (cases "vocab_size h") auto
  then have "h\<lparr>vocab_size := PyInt 42\<rparr> \<noteq> h"
    by (metis hparams.select_convs(1) hparams.surjective hparams.update_convs(1))
  moreover have "fst (get_config (h\<lparr>vocab_size := PyInt 42\<rparr>)) = h\<lparr>vocab_size := PyInt 42\<rparr>"
    by (simp add: get_config_def set_default_vocab_def Let_def)
  ultimately show ?thesis using upd by simp
qed

theorem get_config_mutates_hparams_witness:
  "\<not> has_attr (vocab_size example_hparams) \<and>
   vocab_size (fst (get_config example_hparams)) = PyInt 42 \<and>
   fst (get_config example_hparams) \<noteq> example_hparams"
  using get_config_mutates_hparams [of example_hparams]
  by (simp add: example_hparams_def)

section \<open>Properties of the datasets\<close>

text \<open>
  C7: \<open>load_datasets\<close> builds exactly one featurizer, sized to the maximum sequence
  length, and all three partitions hold that same object. The train and valid
  partitions are constructed without the inference-mode argument (so inference mode is
  off); only the test partition is constructed with inference mode enabled.
\<close>

theorem load_datasets_shared_featurizer:
  "fst (load_datasets st h) = st @ [\<lparr>max_length = max_seq_length h\<rparr>] \<and>
   map fst (snd (load_datasets st h)) = [''train'', ''valid'', ''test''] \<and>
   map (featurizer \<circ> snd) (snd (load_datasets st h)) = [length st, length st, length st] \<and>
   fst (load_datasets st h) ! length st = \<lparr>max_length = max_seq_length h\<rparr> \<and>
   map (inference_mode_arg \<circ> snd) (snd (load_datasets st h)) = [None, None, Some True] \<and>
   map (inference_mode \<circ> snd) (snd (load_datasets st h)) = [False, False, True] \<and>
   map (input_path \<circ> snd) (snd (load_datasets st h)) = [train_file h, valid_file h, test_file h]"
  by (simp add: load_datasets_def bert_smiles_index_featurizer_def inference_mode_def Let_def)

section \<open>Properties of the bootstrap\<close>

text \<open>
  C8: the trainer's device selection is derived from \<open>gpus\<close>: 0 becomes "auto", and
  any other value is handed on unchanged as the device count.
\<close>

theorem run_devices_from_gpus:
  "(gpus a = 0 \<longrightarrow> tr_devices (run_trainer a) = Auto) \<and>
   (gpus a \<noteq> 0 \<longrightarrow> tr_devices (run_trainer a) = DeviceCount (gpus a))"
  by (simp add: run_trainer_def Let_def)

theorem run_devices_from_gpus_witness:
  "gpus example_args = 0 \<and> tr_devices (run_trainer example_args) = Auto \<and>
   gpus (example_args\<lparr>gpus := 2\<rparr>) \<noteq> 0 \<and>
   tr_devices (run_trainer (example_args\<lparr>gpus := 2\<rparr>)) = DeviceCount 2"
  using run_devices_from_gpus [of example_args]
    run_devices_from_gpus [of "example_args\<lparr>gpus := 2\<rparr>"]
  by (simp add: example_args_def)

section \<open>Properties of the test data loader\<close>

lemma batches_one:
  assumes "0 < bs" "xs \<noteq> []" "length xs \<le> bs"
  shows "batches bs xs = [xs]"
proof -
  have first: "batches bs xs = take bs xs # batches bs (drop bs xs)"
    using assms by (subst batches.simps) auto
  have rest: "batches bs (drop bs xs) = []"
    using assms by (subst batches.simps) auto
  show ?thesis using assms by (simp only: first rest) simp
qed

lemma batches_two:
  assumes "0 < bs" "bs < length xs" "length xs \<le> 2 * bs"
  shows "batches bs xs = [take bs xs, drop bs xs]"
proof -
  have first: "batches bs xs = take bs xs # batches bs (drop bs xs)"
    using assms by (subst batches.simps) auto
  have second: "batches bs (drop bs xs) =
      take bs (drop bs xs) # batches bs (drop bs (drop bs xs))"
    using assms by (subst batches.simps) auto
  have rest: "batches bs (drop bs (drop bs xs)) = []"
    using assms by (subst batches.simps) auto
  have whole: "take bs (drop bs xs) = drop bs xs"
    using assms by simp
  show ?thesis by (simp only: first second rest whole)
qed

lemma concat_batches: "0 < bs \<Longrightarrow> concat (batches bs xs) = xs"
proof (induction bs xs rule: batches.induct)
  case (1 bs xs)
  show ?case
  proof (cases "xs = []")
    case True
    then show ?thesis by (subst batches.simps) simp
  next
    case False
    with 1 have "concat (batches bs (drop bs xs)) = drop bs xs" by simp
    moreover have "batches bs xs = take bs xs # batches bs (drop bs xs)"
      using False 1(2) by (subst batches.simps) simp
    ultimately show ?thesis by simp
  qed
qed

text \<open>
  C4: the spec (and the docstring "load the test set in one large batch") promises one
  batch holding the whole test partition. The loader is configured with the constant
  batch size 1024, so a test set of 1025 rows comes out as two batches, of 1024 rows and
  of 1 row: the second batch is neither of size 1024 nor the whole dataset.
\<close>

theorem test_dataloader_splits_large_test_set:
  "test_dataloader big_testset example_hparams =
     Inr \<lparr>dl_dataset = replicate 1025 ''CCO'', batch_size = 1024, dl_num_workers = 4\<rparr> \<and>
   loader_batches length
     \<lparr>dl_dataset = replicate 1025 ''CCO'', batch_size = 1024, dl_num_workers = 4\<rparr> =
     [[0 ..< 1024], [1024]] \<and>
   map length (loader_batches length
     \<lparr>dl_dataset = replicate 1025 ''CCO'', batch_size = 1024, dl_num_workers = 4\<rparr>) =
     [1024, 1]"
proof -
  have loader: "test_dataloader big_testset example_hparams =
      Inr \<lparr>dl_dataset = replicate 1025 ''CCO'', batch_size = 1024, dl_num_workers = 4\<rparr>"
    by (simp add: test_dataloader_def big_testset_def dict_get_def example_hparams_def)
  have "batches 1024 [0 ..< 1025] = [take 1024 [0 ..< 1025], drop 1024 [0 ..< 1025]]"
    by (rule batches_two) (simp_all del: upt_rec_numeral)
  moreover have "take 1024 [0 ..< 1025] = [0 ..< 1024]"
    by (simp del: upt_rec_numeral)
  moreover have "drop 1024 [0 ..< 1025] = [1024 ..< 1025]"
    by (simp del: upt_rec_numeral)
  moreover have "[1024 ..< 1025] = [1024::nat]"
    by simp
  ultimately have "batches 1024 [0 ..< 1025] = [[0 ..< 1024], [1024]]"
    by (simp only:)
  then have split: "loader_batches length
      \<lparr>dl_dataset = replicate 1025 ''CCO'', batch_size = 1024, dl_num_workers = 4\<rparr> =
      [[0 ..< 1024], [1024]]"
    by (simp add: loader_batches_def del: upt_rec_numeral)
  have sizes: "map length [[0 ..< 1024], [1024::nat]] = [1024, 1]"
    by (simp del: upt_rec_numeral)
  show ?thesis
    by (simp only: loader split sizes)
qed

text \<open>
  What does hold: when the loader can be constructed (\<open>num_workers\<close> is not
  negative) its batch size is 1024, and a non-empty test set of at most 1024 rows is
  delivered as one batch holding every row.
\<close>

theorem test_dataloader_small_test_set_single_batch:
  assumes "dict_get datasets ''test'' = Inr ds" and "0 < len ds" and "len ds \<le> 1024"
    and "0 \<le> num_workers h"
  shows "\<exists>L. test_dataloader datasets h = Inr L \<and> dl_dataset L = ds \<and>
           batch_size L = 1024 \<and> loader_batches len L = [[0 ..< len ds]]"
proof -
  have "batches 1024 [0 ..< len ds] = [[0 ..< len ds]]"
    using assms(2,3) by (intro batches_one) simp_all
  then show ?thesis
    using assms(1,4) by (simp add: test_dataloader_def loader_batches_def)
qed

theorem test_dataloader_small_test_set_single_batch_witness:
  "dict_get [(''test'', [''CCO'', ''CCN''])] ''test'' = Inr [''CCO'', ''CCN''] \<and>
   0 \<le> num_workers example_hparams \<and>
   (\<exists>L. test_dataloader [(''test'', [''CCO'', ''CCN''])] example_hparams = Inr L \<and>
        dl_dataset L = [''CCO'', ''CCN''] \<and> batch_size L = 1024 \<and>
        loader_batches length L = [[0, 1]])"
proof -
  have get: "dict_get [(''test'', [''CCO'', ''CCN''])] ''test'' = Inr [''CCO'', ''CCN'']"
    by (simp add: dict_get_def)
  have upt: "[0 ..< length [''CCO'', ''CCN'']] = [0, 1]"
    by (simp add: upt_rec)
  have workers: "0 \<le> num_workers example_hparams"
    by (simp add: example_hparams_def)
  from test_dataloader_small_test_set_single_batch
         [OF get _ _ workers, of length] get upt workers
  show ?thesis by simp
qed

section \<open>Properties of the metrics\<close>

lemma dict_set_fresh: "k \<notin> fst ` set d \<Longrightarrow> dict_set k v d = d @ [(k, v)]"
  by (induction d) auto


lemma metrics_loop_map:
  "distinct (map fst ms) \<Longrightarrow> fst ` set ms \<inter> fst ` set out = {} \<Longrightarrow>
     metrics_loop lib ms out = out @ map (\<lambda>(n, f). (n, recorded lib f)) ms"
proof (induction ms arbitrary: out)
  case Nil
  then show ?case by simp
next
  case (Cons a ms)
  obtain n f where a: "a = (n, f)" by (cases a)
  from Cons.prems a have fresh: "n \<notin> fst ` set out" by auto
  have step: "metrics_loop lib (a # ms) out = metrics_loop lib ms (out @ [(n, recorded lib f)])"
    using fresh by (simp add: a recorded_def dict_set_fresh split: sum.splits)
  have "distinct (map fst ms)" using Cons.prems by simp
  moreover have "fst ` set ms \<inter> fst ` set (out @ [(n, recorded lib f)]) = {}"
    using Cons.prems a by auto
  ultimately have "metrics_loop lib ms (out @ [(n, recorded lib f)]) =
      (out @ [(n, recorded lib f)]) @ map (\<lambda>(n, f). (n, recorded lib f)) ms"
    by (rule Cons.IH)
  with step show ?case by (simp add: a)
qed

text \<open>
  C2: each named metric is computed on its own. In regression mode, and in
  classification mode once the predictions have been turned into classes and
  probabilities, \<open>evaluate_metrics\<close> returns a mapping (it does not raise) that holds,
  for every metric of the mode and in order, the value that metric alone determines:
  "not a number" when its computation raised, its number otherwise.
\<close>

theorem evaluate_metrics_isolates_failures:
  "(mode h \<noteq> ''classification'' \<longrightarrow>
      evaluate_metrics lib h y p =
        Inr (map (\<lambda>(n, f). (n, recorded lib f)) (regression_metrics lib p y))) \<and>
   (mode h = ''classification'' \<and> softmax_dim1 lib p = Inr probs \<and>
    argmax_dim1_squeeze lib probs = Inr preds \<and> select_column1 lib probs = Inr pos \<and>
    long_squeeze lib y = Inr y' \<longrightarrow>
      evaluate_metrics lib h y p =
        Inr (map (\<lambda>(n, f). (n, recorded lib f)) (classification_metrics lib preds pos y'))) \<and>
   (call_item lib g = Inl e \<longrightarrow> recorded lib g = NaN) \<and>
   (call_item lib g = Inr v \<longrightarrow> recorded lib g = Item v)"
proof -
  have reg: "metrics_loop lib (regression_metrics lib p y) [] =
      map (\<lambda>(n, f). (n, recorded lib f)) (regression_metrics lib p y)"
    using metrics_loop_map [of "regression_metrics lib p y" "[]" lib]
    by (simp add: regression_metrics_def)
  have cls: "metrics_loop lib (classification_metrics lib preds pos y') [] =
      map (\<lambda>(n, f). (n, recorded lib f)) (classification_metrics lib preds pos y')"
    using metrics_loop_map [of "classification_metrics lib preds pos y'" "[]" lib]
    by (simp add: classification_metrics_def)
  show ?thesis
    using reg cls by (simp add: evaluate_metrics_def recorded_def)
qed

theorem evaluate_metrics_isolates_failures_witness:
  "mode example_hparams \<noteq> ''classification'' \<and>
   call_item example_env (\<lambda>_. torchmetric example_env R2Score [1] [1] [2]) =
     Inl (LibraryError ''R2'') \<and>
   evaluate_metrics example_env example_hparams [2] [1] =
     Inr [(''MAE'', Item 1), (''RMSE'', Item 1), (''MSE'', Item 1), (''R2'', NaN)] \<and>
   mode (example_hparams\<lparr>mode := ''classification''\<rparr>) = ''classification'' \<and>
   evaluate_metrics example_env (example_hparams\<lparr>mode := ''classification''\<rparr>) [2] [1] =
     Inr [(''AUROC'', NaN), (''AveragePrecision'', Item 1), (''Accuracy'', Item 1),
          (''F1'', Item 1)]"
  using evaluate_metrics_isolates_failures
      [of example_hparams example_env "[2]" "[1]" "[1]" "[1]" "[1]" "[2]"
          "\<lambda>_. torchmetric example_env R2Score [1] [1] [2]" "LibraryError ''R2''" 0]
    evaluate_metrics_isolates_failures
      [of "example_hparams\<lparr>mode := ''classification''\<rparr>" example_env
          "[2]" "[1]" "[1]" "[1]" "[1]" "[2]"
          "\<lambda>_. torchmetric example_env R2Score [1] [1] [2]" "LibraryError ''R2''" 0]
  by (simp add: example_hparams_def regression_metrics_def classification_metrics_def
      recorded_def call_item_def example_env_def)

section \<open>Properties of the test epoch\<close>

lemma empty_accumulator_raises:
  "test_step_outputs m = [] \<Longrightarrow>
     on_test_epoch_end lib m =
       (m, Inl (RuntimeError ''torch.cat(): expected a non-empty list of Tensors''))"
  by (simp add: on_test_epoch_end_def torch_cat_def)

lemma returns_cleared:
  "on_test_epoch_end lib m = (m', Inr r) \<Longrightarrow> test_step_outputs m' = []"
  by (auto simp: on_test_epoch_end_def Let_def split: sum.splits option.splits if_splits)

lemma test_step_appends:
  "test_step lib m batch = (m'', Inr out) \<Longrightarrow>
     test_step_outputs m'' = test_step_outputs m @ [out]"
  by (cases batch) (auto simp: test_step_def Let_def split: sum.splits prod.splits)

lemma example_metrics_run:
  "evaluate_metrics example_env example_hparams [2] [1] = Inr example_metrics"
  by (simp add: evaluate_metrics_def example_hparams_def regression_metrics_def
      call_item_def example_env_def example_metrics_def)

lemma example_path:
  "os_path_join (os_path_dirname ''runs/v1/last.ckpt'') ''metrics.json'' =
     ''runs/v1/metrics.json''"
  by (simp add: os_path_join_def os_path_dirname_def)

lemma example_run:
  "on_test_epoch_end example_env example_model = (example_model_done, Inr example_summary)"
proof -
  have env: "cat_nonempty example_env = (\<lambda>ts. Inr (concat ts))"
    "evaluate_losses example_env = (\<lambda>ls ps. Inr [(''finetune'', [0])])"
    "sum_stack example_env = (\<lambda>ts. Inr [sum_list (concat ts)])"
    "can_write example_env = (\<lambda>p. True)"
    by (simp_all add: example_env_def)
  show ?thesis
    unfolding on_test_epoch_end_def
    by (simp add: example_model_def example_metrics_run example_path torch_cat_def env
        dict_get_def tensorboard_logs_of_def example_model_done_def example_summary_def
        Let_def)
qed

text \<open>
  C1: whenever \<open>on_test_epoch_end\<close> returns, the accumulator it leaves behind is empty.
  A second call in a row therefore finds nothing to reuse (it raises and returns no
  summary), and the next evaluation pass accumulates only its own batches: after the
  first \<open>test_step\<close> of that pass the accumulator holds exactly that step's output.
\<close>

theorem on_test_epoch_end_clears_accumulator:
  "on_test_epoch_end lib m = (m', Inr r) \<Longrightarrow>
     test_step_outputs m' = [] \<and>
     (\<exists>e. on_test_epoch_end lib m' = (m', Inl e)) \<and>
     (\<forall>batch m'' out. test_step lib m' batch = (m'', Inr out) \<longrightarrow>
        test_step_outputs m'' = [out])"
proof -
  assume ret: "on_test_epoch_end lib m = (m', Inr r)"
  then have empty: "test_step_outputs m' = []"
    by (rule returns_cleared)
  then have again: "\<exists>e. on_test_epoch_end lib m' = (m', Inl e)"
    using empty_accumulator_raises by blast
  from empty have "\<forall>batch m'' out. test_step lib m' batch = (m'', Inr out) \<longrightarrow>
      test_step_outputs m'' = [out]"
    using test_step_appends by fastforce
  with empty again show ?thesis by blast
qed

theorem on_test_epoch_end_clears_accumulator_witness:
  "on_test_epoch_end example_env example_model = (example_model_done, Inr example_summary) \<and>
   test_step_outputs example_model \<noteq> [] \<and>
   test_step_outputs example_model_done = [] \<and>
   (\<exists>e. on_test_epoch_end example_env example_model_done = (example_model_done, Inl e))"
proof -
  note cleared = on_test_epoch_end_clears_accumulator [OF example_run]
  have "test_step_outputs example_model \<noteq> []"
    by (simp add: example_model_def)
  with cleared example_run show ?thesis by blast
qed

text \<open>
  C9: \<open>on_test_epoch_end\<close> needs a non-empty accumulator. With no accumulated output the
  list of predictions to concatenate is empty, \<open>torch.cat\<close> raises, and the call ends with
  that error instead of a summary, leaving the state as it was.
\<close>

theorem on_test_epoch_end_empty_raises:
  "test_step_outputs m = [] \<Longrightarrow>
     on_test_epoch_end lib m =
       (m, Inl (RuntimeError ''torch.cat(): expected a non-empty list of Tensors''))"
  by (simp add: on_test_epoch_end_def torch_cat_def)

theorem on_test_epoch_end_empty_raises_witness:
  "test_step_outputs example_model_done = [] \<and>
   on_test_epoch_end example_env example_model_done =
     (example_model_done,
      Inl (RuntimeError ''torch.cat(): expected a non-empty list of Tensors''))"
proof -
  have empty: "test_step_outputs example_model_done = []"
    by (simp add: example_model_done_def)
  from on_test_epoch_end_empty_raises [OF empty, of example_env] empty
  show ?thesis by simp
qed

text \<open>
  When \<open>on_test_epoch_end\<close> raises instead, nothing has been cleared: the accumulator is
  the one it was called with.
\<close>

theorem on_test_epoch_end_raise_keeps_accumulator:
  "on_test_epoch_end lib m = (m', Inl e) \<Longrightarrow> test_step_outputs m' = test_step_outputs m"
  by (auto simp: on_test_epoch_end_def Let_def split: sum.splits option.splits if_splits)

theorem on_test_epoch_end_raise_keeps_accumulator_witness:
  "on_test_epoch_end example_env (example_model\<lparr>ckpt_path := None\<rparr>) =
     (example_model\<lparr>ckpt_path := None, logged := [LogMetrics example_metrics]\<rparr>,
      Inl (TypeError ''expected str, bytes or os.PathLike object, not NoneType'')) \<and>
   test_step_outputs (example_model\<lparr>ckpt_path := None, logged := [LogMetrics example_metrics]\<rparr>)
     = test_step_outputs (example_model\<lparr>ckpt_path := None\<rparr>)"
proof -
  have env: "cat_nonempty example_env = (\<lambda>ts. Inr (concat ts))"
    "evaluate_losses example_env = (\<lambda>ls ps. Inr [(''finetune'', [0])])"
    "sum_stack example_env = (\<lambda>ts. Inr [sum_list (concat ts)])"
    by (simp_all add: example_env_def)
  have run: "on_test_epoch_end example_env (example_model\<lparr>ckpt_path := None\<rparr>) =
     (example_model\<lparr>ckpt_path := None, logged := [LogMetrics example_metrics]\<rparr>,
      Inl (TypeError ''expected str, bytes or os.PathLike object, not NoneType''))"
    unfolding on_test_epoch_end_def
    by (simp add: example_model_def example_metrics_run torch_cat_def env dict_get_def
        Let_def)
  from on_test_epoch_end_raise_keeps_accumulator [OF run] run
  show ?thesis by simp
qed

section \<open>Properties of the metrics file\<close>














end
